theory Spec2Isabelle
  imports Main
begin

section \<open>Data model of chatInlineAnchorWidget.ts\<close>

text \<open>
  A URI value with its five components. The class itself lives in
  \<^verbatim>\<open>base/common/uri\<close>; the widget reads \<^verbatim>\<open>path\<close> and replaces \<^verbatim>\<open>fragment\<close>.
\<close>

record uri =
  scheme :: string
  authority :: string
  path :: string
  query :: string
  fragment :: string

text \<open>
  Modelled from the spec: \<^verbatim>\<open>URI.with({ fragment })\<close> is declared outside this file; the
  spec describes its result as the same URI "with a fragment set to" the given string.
\<close>

definition with_fragment :: "uri \<Rightarrow> string \<Rightarrow> uri" where
  "with_fragment u f = u\<lparr>fragment := f\<rparr>"

text \<open>\<^verbatim>\<open>IRange\<close>: four numbers; line and column numbers are integers.\<close>

record irange =
  startLineNumber :: int
  startColumn :: int
  endLineNumber :: int
  endColumn :: int

text \<open>
  The local type \<^verbatim>\<open>{ readonly uri: URI; readonly range?: IRange }\<close> of the constructor
  (line 98). The range is optional: the code tests \<^verbatim>\<open>location.range\<close> before reading it.
\<close>

record ilocation =
  loc_uri :: uri
  loc_range :: "irange option"

type_synonym symbol_kind = nat

text \<open>\<^verbatim>\<open>IWorkspaceSymbol\<close>, restricted to the members the widget reads.\<close>

record workspace_symbol =
  name :: string
  kind :: symbol_kind
  location :: ilocation

text \<open>
  The value of \<^verbatim>\<open>inlineReference.inlineReference\<close>, of type
  \<^verbatim>\<open>URI | Location | IWorkspaceSymbol\<close>: a bare URI, an object with a \<^verbatim>\<open>uri\<close> member
  (and optionally a \<^verbatim>\<open>range\<close>), or a symbol descriptor with a \<^verbatim>\<open>name\<close> member.
\<close>

datatype inline_reference =
    RefUri uri
  | RefLocation ilocation
  | RefSymbol workspace_symbol

text \<open>The two shape tests of lines 82 and 84: \<^verbatim>\<open>'uri' in x\<close> and \<^verbatim>\<open>'name' in x\<close>.\<close>

fun has_uri_field :: "inline_reference \<Rightarrow> bool" where
  "has_uri_field (RefUri _) = False"
| "has_uri_field (RefLocation _) = True"
| "has_uri_field (RefSymbol _) = False"

fun has_name_field :: "inline_reference \<Rightarrow> bool" where
  "has_name_field (RefUri _) = False"
| "has_name_field (RefLocation _) = False"
| "has_name_field (RefSymbol _) = True"

text \<open>\<^verbatim>\<open>ContentRefData\<close> (lines 49 to 55): the tag \<^verbatim>\<open>kind: 'symbol'\<close> or no tag.\<close>

datatype content_ref_data =
    SymbolData workspace_symbol
  | ResourceData uri "irange option"

text \<open>
  Lines 82 to 86. The first arm (\<^verbatim>\<open>'uri' in x\<close>) keeps the object as it is, the second
  (\<^verbatim>\<open>'name' in x\<close>) wraps the descriptor, the last wraps the payload itself as
  \<^verbatim>\<open>{ uri: x }\<close>.
\<close>

fun classify :: "inline_reference \<Rightarrow> content_ref_data" where
  "classify (RefLocation l) = ResourceData (loc_uri l) (loc_range l)"
| "classify (RefSymbol s) = SymbolData s"
| "classify (RefUri u) = ResourceData u None"

fun is_symbol :: "content_ref_data \<Rightarrow> bool" where
  "is_symbol (SymbolData _) = True"
| "is_symbol (ResourceData _ _) = False"

section \<open>Numbers in template literals\<close>

text \<open>
  \<^verbatim>\<open>`${n}`\<close> of an integer \<^verbatim>\<open>n\<close> is its decimal numeral, with a leading minus sign
  when it is negative.
\<close>

definition digit_char :: "nat \<Rightarrow> char" where
  "digit_char d = ''0123456789'' ! d"

fun digits :: "nat \<Rightarrow> string" where
  "digits n = (if n < 10 then [digit_char n] else digits (n div 10) @ [digit_char (n mod 10)])"

declare digits.simps [simp del]

definition number_toString :: "int \<Rightarrow> string" where
  "number_toString i = (if i < 0 then CHR ''-'' # digits (nat (- i)) else digits (nat i))"

section \<open>Collaborators\<close>

datatype file_kind = FILE | FOLDER

type_synonym text_model = nat

text \<open>
  The state of the model service and of the two language-feature registries at one
  moment: which document is loaded for a URI, whether a document is disposed, and
  which documents have a definition or a reference provider.
\<close>

record world =
  getModel :: "uri \<Rightarrow> text_model option"
  isDisposed :: "text_model \<Rightarrow> bool"
  definitionProvider_has :: "text_model \<Rightarrow> bool"
  referenceProvider_has :: "text_model \<Rightarrow> bool"

text \<open>
  The services whose answers do not change while a widget lives: the label service, the
  icon resolution (\<^verbatim>\<open>SymbolKinds.toIcon\<close>, \<^verbatim>\<open>getIconClasses\<close>) and the declared defaults
  of the context keys \<^verbatim>\<open>ExplorerFolderContext\<close>, \<^verbatim>\<open>hasDefinitionProvider\<close> and
  \<^verbatim>\<open>hasReferenceProvider\<close> (the value a key holds once bound), all declared outside this
  file and taken as parameters. \<^verbatim>\<open>getIconClasses\<close> is called with the model service
  and the language service, then the resource, the file kind and the icon, each
  possibly \<^verbatim>\<open>undefined\<close>: its answer may depend on the documents that are loaded, so the
  parameter receives the state of the world (declared below) first; the language
  service is part of the parameter itself.
\<close>

record services =
  getUriBasenameLabel :: "uri \<Rightarrow> string"
  getUriLabel :: "uri \<Rightarrow> string"
  toIcon :: "symbol_kind \<Rightarrow> string"
  getIconClasses ::
    "world \<Rightarrow> uri option \<Rightarrow> file_kind option \<Rightarrow> string option \<Rightarrow> string list"
  explorerFolderDefault :: bool
  hasDefinitionProviderDefault :: bool
  hasReferenceProviderDefault :: bool

section \<open>The widget\<close>

datatype menu_id = ChatInlineSymbolAnchorContext | ChatInlineResourceAnchorContext

datatype menu_arg = ArgUri uri | ArgLocation ilocation

text \<open>
  What the constructor leaves behind: the classified reference, what it wrote to the
  element, the keys it bound in its scoped context (\<open>None\<close>: never bound or set by this
  widget), the listeners it registered, and the telemetry it sent. \<open>data_href\<close> is the
  URI whose \<^verbatim>\<open>toString()\<close> becomes the attribute \<^verbatim>\<open>data-href\<close>; \<open>chatAnchorResource\<close> the
  URI whose \<^verbatim>\<open>toString()\<close> is the value of the key.
\<close>

record widget =
  data :: content_ref_data
  classList :: "string list"
  iconClasses :: "string list"
  iconText :: string
  data_href :: uri
  contextMenuId :: menu_id
  contextMenuArg :: menu_arg
  hover :: string
  draggable :: bool
  chatAnchorResource :: "uri option"
  resourceContextKey :: "uri option"
  hasDefinitionProvider :: "bool option"
  hasReferenceProvider :: "bool option"
  explorerResourceIsFolder :: "bool option"
  definitionProvider_onDidChange :: "text_model option"
  referenceProvider_onDidChange :: "text_model option"
  statPending :: bool
  anchorId :: "string option"
  telemetry :: "(string \<times> string) list"
  disposed :: bool

text \<open>Lines 113 to 120, for the document \<open>m\<close> the closure captured.\<close>

definition updateContents :: "world \<Rightarrow> text_model \<Rightarrow> widget \<Rightarrow> widget" where
  "updateContents wd m w =
     (if isDisposed wd m then w
      else w\<lparr>hasDefinitionProvider := Some (definitionProvider_has wd m),
             hasReferenceProvider := Some (definitionProvider_has wd m)\<rparr>)"

text \<open>Line 178.\<close>

definition fragment_of :: "irange option \<Rightarrow> string" where
  "fragment_of rg =
     (case rg of
        Some r \<Rightarrow> number_toString (startLineNumber r) @ ''-'' @ number_toString (endLineNumber r)
      | None \<Rightarrow> [])"

text \<open>
  Lines 88 to 93: the state before the two branches. The attribute \<^verbatim>\<open>data-href\<close> and
  the context-menu arguments are written by both branches (\<open>finish\<close> below); until then
  the record holds the reference's own URI there.
\<close>

definition initial :: "content_ref_data \<Rightarrow> uri \<Rightarrow> widget" where
  "initial d u =
     \<lparr>data = d, classList = [''chat-inline-anchor-widget'', ''show-file-icons''],
      iconClasses = [], iconText = [], data_href = u,
      contextMenuId = ChatInlineResourceAnchorContext, contextMenuArg = ArgUri u,
      hover = [], draggable = False,
      chatAnchorResource = None, resourceContextKey = None,
      hasDefinitionProvider = None, hasReferenceProvider = None,
      explorerResourceIsFolder = None,
      definitionProvider_onDidChange = None, referenceProvider_onDidChange = None,
      statPending = False, anchorId = None, telemetry = [], disposed = False\<rparr>"

text \<open>Lines 174 to 208, shared by the two branches.\<close>

definition finish ::
  "services \<Rightarrow> ilocation \<Rightarrow> menu_id \<Rightarrow> menu_arg \<Rightarrow> string \<Rightarrow> string list \<Rightarrow> widget \<Rightarrow> widget" where
  "finish sv loc mid marg txt cls w =
     w\<lparr>iconClasses := cls, iconText := txt,
       data_href := with_fragment (loc_uri loc) (fragment_of (loc_range loc)),
       contextMenuId := mid, contextMenuArg := marg,
       hover := getUriLabel sv (loc_uri loc), draggable := True\<rparr>"

text \<open>Lines 101 to 136.\<close>

definition symbol_branch :: "services \<Rightarrow> world \<Rightarrow> workspace_symbol \<Rightarrow> widget \<Rightarrow> widget" where
  "symbol_branch sv wd s w =
     (let loc = location s;
          w1 = (case getModel wd (loc_uri loc) of
                  None \<Rightarrow> w
                | Some m \<Rightarrow>
                    (updateContents wd m
                       (w\<lparr>hasDefinitionProvider := Some (hasDefinitionProviderDefault sv),
                          hasReferenceProvider := Some (hasReferenceProviderDefault sv)\<rparr>))
                    \<lparr>definitionProvider_onDidChange := Some m,
                     referenceProvider_onDidChange := Some m\<rparr>)
      in finish sv loc ChatInlineSymbolAnchorContext (ArgLocation loc) (name s)
           (''codicon'' # getIconClasses sv wd None None (Some (toIcon sv (kind s)))) w1)"

definition endsWith_slash :: "string \<Rightarrow> bool" where
  "endsWith_slash p = (p \<noteq> [] \<and> last p = CHR ''/'')"

text \<open>Lines 138 to 171.\<close>

definition resource_branch ::
  "services \<Rightarrow> world \<Rightarrow> uri \<Rightarrow> irange option \<Rightarrow> widget \<Rightarrow> widget" where
  "resource_branch sv wd u rg w =
     (let loc = \<lparr>loc_uri = u, loc_range = rg\<rparr>;
          w1 = w\<lparr>resourceContextKey := Some u, chatAnchorResource := Some u\<rparr>;
          label = getUriBasenameLabel sv u;
          txt = (case rg of
                   Some r \<Rightarrow> label @ ''#'' @ number_toString (startLineNumber r) @ ''-''
                              @ number_toString (endLineNumber r)
                 | None \<Rightarrow> label);
          fileKind = (if endsWith_slash (path u) then FOLDER else FILE);
          cls = getIconClasses sv wd (Some u) (Some fileKind) None;
          w2 = w1\<lparr>explorerResourceIsFolder := Some (explorerFolderDefault sv),
                  statPending := True\<rparr>
      in finish sv loc ChatInlineResourceAnchorContext (ArgUri u) txt cls w2)"

definition new_InlineAnchorWidget :: "services \<Rightarrow> world \<Rightarrow> inline_reference \<Rightarrow> widget" where
  "new_InlineAnchorWidget sv wd ref =
     (case classify ref of
        SymbolData s \<Rightarrow> symbol_branch sv wd s (initial (SymbolData s) (loc_uri (location s)))
      | ResourceData u rg \<Rightarrow> resource_branch sv wd u rg (initial (ResourceData u rg) u))"

section \<open>Payloads outside the declared type\<close>

text \<open>
  The type of the payload is erased when the code runs. Besides a value of the declared
  type the constructor can be handed a value that is not an object (\<^verbatim>\<open>null\<close>,
  \<^verbatim>\<open>undefined\<close>, a string, a number), or an object of another shape. Of the latter the
  model has those with neither a \<^verbatim>\<open>uri\<close> nor a \<^verbatim>\<open>name\<close> member that are not URIs: the
  object's \<^verbatim>\<open>with\<close> member is not a function, and \<open>path_member\<close> is its \<^verbatim>\<open>path\<close> member
  when that is a string (\<^verbatim>\<open>{}\<close> has none).
\<close>

record plain_object =
  path_member :: "string option"

datatype payload =
    Declared inline_reference
  | NotAnObject
  | OtherObject plain_object

datatype error = TypeError

text \<open>
  The operator \<^verbatim>\<open>in\<close> of lines 82 and 84 throws a TypeError when its right operand is
  not an object.
\<close>

fun uri_in :: "payload \<Rightarrow> error + bool" where
  "uri_in (Declared r) = Inr (has_uri_field r)"
| "uri_in NotAnObject = Inl TypeError"
| "uri_in (OtherObject ob) = Inr False"

fun name_in :: "payload \<Rightarrow> error + bool" where
  "name_in (Declared r) = Inr (has_name_field r)"
| "name_in NotAnObject = Inl TypeError"
| "name_in (OtherObject ob) = Inr False"

text \<open>
  Line 151 on an object stored as \<^verbatim>\<open>data.uri\<close> by the last arm of line 86:
  \<^verbatim>\<open>location.uri.path.endsWith('/')\<close> throws a TypeError when \<^verbatim>\<open>path\<close> is not a string.
\<close>

definition fileKind_of_object :: "plain_object \<Rightarrow> error + file_kind" where
  "fileKind_of_object ob =
     (case path_member ob of
        None \<Rightarrow> Inl TypeError
      | Some p \<Rightarrow> Inr (if endsWith_slash p then FOLDER else FILE))"

text \<open>
  Line 179 on such an object: \<^verbatim>\<open>location.uri.with({ fragment })\<close> throws a TypeError, the
  member \<^verbatim>\<open>with\<close> not being a function.
\<close>

definition with_of_object :: "plain_object \<Rightarrow> string \<Rightarrow> error + uri" where
  "with_of_object ob f = Inl TypeError"

text \<open>
  The constructor on any payload. A value of the declared type is handled as above and
  the widget is returned. Otherwise the first exception ends the construction and no
  widget is returned: on line 82 for a value that is not an object; for another object,
  which no shape test accepts and which line 86 stores as \<^verbatim>\<open>data.uri\<close>, on line 151 or
  else on line 179. (A collaborator that is handed the object before, on lines 142 to
  146, 152 and 155, either returns or throws itself; the construction fails in both
  cases.)
\<close>

definition construct :: "services \<Rightarrow> world \<Rightarrow> payload \<Rightarrow> error + widget" where
  "construct sv wd p =
     (case uri_in p of
        Inl e \<Rightarrow> Inl e
      | Inr has_uri \<Rightarrow>
          (case (if has_uri then Inr False else name_in p) of
             Inl e \<Rightarrow> Inl e
           | Inr has_name \<Rightarrow>
               (case p of
                  Declared r \<Rightarrow> Inr (new_InlineAnchorWidget sv wd r)
                | NotAnObject \<Rightarrow> Inl TypeError
                | OtherObject ob \<Rightarrow>
                    (case fileKind_of_object ob of
                       Inl e \<Rightarrow> Inl e
                     | Inr fileKind \<Rightarrow>
                         (case with_of_object ob [] of
                            Inl e \<Rightarrow> Inl e
                          | Inr u \<Rightarrow>
                              Inr (resource_branch sv wd u None
                                     (initial (ResourceData u None) u)))))))"



section \<open>Events in the life of a widget\<close>

record file_stat =
  isDirectory :: bool

datatype 'a settled = Fulfilled 'a | Rejected string

text \<open>
  Lines 155 to 159: \<^verbatim>\<open>stat(uri).then(set).catch(() => { })\<close>. The result is the widget
  and how the promise at the end of the chain settles.
\<close>

fun stat_chain :: "widget \<Rightarrow> file_stat settled \<Rightarrow> widget \<times> unit settled" where
  "stat_chain w (Fulfilled st) =
     (w\<lparr>explorerResourceIsFolder := Some (isDirectory st)\<rparr>, Fulfilled ())"
| "stat_chain w (Rejected e) = (w, Fulfilled ())"

datatype event =
    DefinitionProviderDidChange world
  | ReferenceProviderDidChange world
  | StatSettled "file_stat settled"
  | Click string
  | ContextMenu
  | DragStart
  | Dispose

definition click_event_name :: "content_ref_data \<Rightarrow> string" where
  "click_event_name d =
     (if is_symbol d then ''chat.inlineAnchor.openSymbol'' else ''chat.inlineAnchor.openResource'')"

text \<open>
  Modelled from the spec: \<^verbatim>\<open>Disposable\<close> and \<^verbatim>\<open>_register\<close> are declared outside this
  file; the spec says that disposing the instance releases all attached listeners. The
  record keeps the last value the widget wrote to each context key.
\<close>

definition dispose :: "widget \<Rightarrow> widget" where
  "dispose w =
     w\<lparr>definitionProvider_onDidChange := None, referenceProvider_onDidChange := None,
       disposed := True\<rparr>"

text \<open>
  One event. A registry notification carries the state of the world at that moment and
  runs \<^verbatim>\<open>updateContents\<close> when the listener is registered (lines 122, 123). The stat
  promise settles once; its callbacks are not guarded by disposal. A click sends the
  telemetry event with the lazily generated identifier (the argument is what
  \<^verbatim>\<open>generateUuid\<close> returns if it is called). Context menu and drag start call
  collaborators and leave the widget as it is.
\<close>

fun step :: "widget \<Rightarrow> event \<Rightarrow> widget" where
  "step w (DefinitionProviderDidChange wd) =
     (case definitionProvider_onDidChange w of None \<Rightarrow> w | Some m \<Rightarrow> updateContents wd m w)"
| "step w (ReferenceProviderDidChange wd) =
     (case referenceProvider_onDidChange w of None \<Rightarrow> w | Some m \<Rightarrow> updateContents wd m w)"
| "step w (StatSettled r) =
     (if statPending w then (fst (stat_chain w r))\<lparr>statPending := False\<rparr> else w)"
| "step w (Click uuid) =
     (if disposed w then w
      else (let i = (case anchorId w of None \<Rightarrow> uuid | Some j \<Rightarrow> j)
            in w\<lparr>anchorId := Some i, telemetry := telemetry w @ [(click_event_name (data w), i)]\<rparr>))"
| "step w ContextMenu = w"
| "step w DragStart = w"
| "step w Dispose = dispose w"

text \<open>The widget after a sequence of events, in order.\<close>

definition lifetime :: "widget \<Rightarrow> event list \<Rightarrow> widget" where
  "lifetime w evs = foldl step w evs"

section \<open>Keybinding actions\<close>

datatype effect = WriteResources "uri list" | ExecuteCommand string uri

text \<open>
  Lines 269 to 279 and 302 to 312. The only input is the anchor the tracker holds
  (\<^verbatim>\<open>lastFocusedAnchor\<close>); the result is the list of calls made to the clipboard and the
  command service. The command identifier \<^verbatim>\<open>OPEN_TO_SIDE_COMMAND_ID\<close> is a parameter.
\<close>

definition CopyResourceAction_run :: "widget option \<Rightarrow> effect list" where
  "CopyResourceAction_run anchor =
     (case anchor of
        None \<Rightarrow> []
      | Some a \<Rightarrow>
          (case data a of SymbolData _ \<Rightarrow> [] | ResourceData u _ \<Rightarrow> [WriteResources [u]]))"

definition OpenToSideAction_run :: "string \<Rightarrow> widget option \<Rightarrow> effect list" where
  "OpenToSideAction_run cmd anchor =
     (case anchor of
        None \<Rightarrow> []
      | Some a \<Rightarrow>
          (case data a of SymbolData _ \<Rightarrow> [] | ResourceData u _ \<Rightarrow> [ExecuteCommand cmd u]))"

text \<open>
  Modelled from the spec: the evaluation of a context-key expression is declared outside
  this file; the spec describes the scoped context as a nested key-value scope that
  shadows the ambient context. The precondition \<^verbatim>\<open>chatResourceContextKey\<close> of both
  actions (lines 261, 291) holds when the key is defined in the widget's scope or, the
  scope not holding it, in the ambient context (\<open>ambient\<close> is the key's ambient value).
\<close>

definition chatResource_precondition :: "uri option \<Rightarrow> widget \<Rightarrow> bool" where
  "chatResource_precondition ambient w =
     (case chatAnchorResource w of Some _ \<Rightarrow> True | None \<Rightarrow> ambient \<noteq> None)"

text \<open>The three fields the spec calls DisplayData.\<close>

definition display_data :: "widget \<Rightarrow> string \<times> string set \<times> uri" where
  "display_data w = (iconText w, set (iconClasses w), data_href w)"

section \<open>Sample collaborators\<close>

definition basename :: "string \<Rightarrow> string" where
  "basename p = rev (takeWhile (\<lambda>c. c \<noteq> CHR ''/'') (rev p))"

definition services0 :: services where
  "services0 =
     \<lparr>getUriBasenameLabel = (\<lambda>u. basename (path u)),
      getUriLabel = path,
      toIcon = (\<lambda>k. ''symbol-'' @ digits k),
      getIconClasses = (\<lambda>wd u fk ic.
         (case ic of
            Some i \<Rightarrow> [''codicon-'' @ i]
          | None \<Rightarrow>
              (if fk = Some FOLDER then [''folder-icon'']
               else (case u of
                       None \<Rightarrow> [''file-icon'']
                     | Some r \<Rightarrow>
                         (case getModel wd r of
                            None \<Rightarrow> [''file-icon'']
                          | Some m \<Rightarrow> [''file-icon'', ''lang-file-icon'']))))),
      explorerFolderDefault = False,
      hasDefinitionProviderDefault = False,
      hasReferenceProviderDefault = False\<rparr>"

definition file_uri :: "string \<Rightarrow> uri" where
  "file_uri p = \<lparr>scheme = ''file'', authority = [], path = p, query = [], fragment = []\<rparr>"

definition world_unloaded :: world where
  "world_unloaded =
     \<lparr>getModel = (\<lambda>u. None), isDisposed = (\<lambda>m. False),
      definitionProvider_has = (\<lambda>m. False), referenceProvider_has = (\<lambda>m. False)\<rparr>"

definition world_loaded :: "bool \<Rightarrow> bool \<Rightarrow> world" where
  "world_loaded d r =
     \<lparr>getModel = (\<lambda>u. Some 0), isDisposed = (\<lambda>m. False),
      definitionProvider_has = (\<lambda>m. d), referenceProvider_has = (\<lambda>m. r)\<rparr>"

definition range_3_5 :: irange where
  "range_3_5 = \<lparr>startLineNumber = 3, startColumn = 1, endLineNumber = 5, endColumn = 1\<rparr>"

definition symbol0 :: workspace_symbol where
  "symbol0 = \<lparr>name = ''foo'', kind = 11,
              location = \<lparr>loc_uri = file_uri ''/a/b.txt'', loc_range = Some range_3_5\<rparr>\<rparr>"

definition services1 :: services where
  "services1 = services0\<lparr>getUriLabel := (\<lambda>u. []), explorerFolderDefault := True\<rparr>"

text \<open>
  A widget that has bound neither capability key and holds no registry subscription.
\<close>

definition unbound :: "widget \<Rightarrow> bool" where
  "unbound w =
     (hasDefinitionProvider w = None \<and> hasReferenceProvider w = None \<and>
      definitionProvider_onDidChange w = None \<and> referenceProvider_onDidChange w = None)"

section \<open>Auxiliary facts\<close>

lemmas construct_defs =
  new_InlineAnchorWidget_def symbol_branch_def resource_branch_def finish_def initial_def
  updateContents_def with_fragment_def fragment_of_def Let_def

lemma number_toString_3: "number_toString 3 = ''3''"
  by (simp add: number_toString_def digits.simps digit_char_def)

lemma number_toString_5: "number_toString 5 = ''5''"
  by (simp add: number_toString_def digits.simps digit_char_def)

lemma basename_label_b_txt: "getUriBasenameLabel services0 (file_uri ''/a/b.txt'') = ''b.txt''"
  by (simp add: services0_def file_uri_def basename_def)

lemma range_3_5_lines: "startLineNumber range_3_5 = 3" "endLineNumber range_3_5 = 5"
  by (simp_all add: range_3_5_def)

text \<open>No event writes the chat-resource key, the display fields or, short of a
  fulfilled stat, the folder flag.\<close>

lemma step_chatAnchorResource: "chatAnchorResource (step w e) = chatAnchorResource w"
proof (cases e)
  case (StatSettled r)
  then show ?thesis by (cases r) simp_all
qed (simp_all add: updateContents_def dispose_def Let_def split: option.split)

lemma lifetime_chatAnchorResource:
  "chatAnchorResource (lifetime w evs) = chatAnchorResource w"
  unfolding lifetime_def
  by (induction evs arbitrary: w) (simp_all add: step_chatAnchorResource)

lemma step_explorerResourceIsFolder:
  "(\<forall>st. e \<noteq> StatSettled (Fulfilled st)) \<Longrightarrow>
   explorerResourceIsFolder (step w e) = explorerResourceIsFolder w"
proof (cases e)
  case (StatSettled r)
  assume "\<forall>st. e \<noteq> StatSettled (Fulfilled st)"
  with StatSettled show ?thesis by (cases r) simp_all
qed (simp_all add: updateContents_def dispose_def Let_def split: option.split)

lemma lifetime_explorerResourceIsFolder:
  "(\<forall>st. StatSettled (Fulfilled st) \<notin> set evs) \<Longrightarrow>
   explorerResourceIsFolder (lifetime w evs) = explorerResourceIsFolder w"
  unfolding lifetime_def
proof (induction evs arbitrary: w)
  case Nil
  then show ?case by simp
next
  case (Cons e evs)
  have "\<forall>st. e \<noteq> StatSettled (Fulfilled st)" using Cons.prems by auto
  then have "explorerResourceIsFolder (step w e) = explorerResourceIsFolder w"
    by (rule step_explorerResourceIsFolder)
  moreover have "\<forall>st. StatSettled (Fulfilled st) \<notin> set evs" using Cons.prems by auto
  ultimately show ?case using Cons.IH [of "step w e"] by simp
qed

lemma step_display_data: "display_data (step w e) = display_data w"
proof (cases e)
  case (StatSettled r)
  then show ?thesis by (cases r) (simp_all add: display_data_def)
qed (simp_all add: display_data_def updateContents_def dispose_def Let_def split: option.split)

lemma lifetime_display_data: "display_data (lifetime w evs) = display_data w"
  unfolding lifetime_def
  by (induction evs arbitrary: w) (simp_all add: step_display_data)

lemma step_unbound: "unbound w \<Longrightarrow> unbound (step w e)"
proof (cases e)
  case (StatSettled r)
  assume "unbound w"
  with StatSettled show ?thesis by (cases r) (simp_all add: unbound_def)
qed (simp_all add: unbound_def dispose_def Let_def)

lemma lifetime_unbound: "unbound w \<Longrightarrow> unbound (lifetime w evs)"
  unfolding lifetime_def
  by (induction evs arbitrary: w) (simp_all add: step_unbound)

text \<open>
  With the document loaded and not disposed, both capability keys are bound and hold
  what the definition-provider registry answers, and both subscriptions are registered.
\<close>

lemma loaded_symbol_binds:
  "getModel wd (loc_uri (location s)) = Some m \<Longrightarrow> \<not> isDisposed wd m \<Longrightarrow>
   hasDefinitionProvider (new_InlineAnchorWidget sv wd (RefSymbol s)) =
     Some (definitionProvider_has wd m) \<and>
   hasReferenceProvider (new_InlineAnchorWidget sv wd (RefSymbol s)) =
     Some (definitionProvider_has wd m) \<and>
   definitionProvider_onDidChange (new_InlineAnchorWidget sv wd (RefSymbol s)) = Some m \<and>
   referenceProvider_onDidChange (new_InlineAnchorWidget sv wd (RefSymbol s)) = Some m"
  by (simp add: construct_defs)

text \<open>On a resource anchor both keybinding actions do act.\<close>

lemma keybinding_actions_on_resource:
  "data a = ResourceData u rg \<Longrightarrow>
   CopyResourceAction_run (Some a) = [WriteResources [u]] \<and>
   OpenToSideAction_run cmd (Some a) = [ExecuteCommand cmd u]"
  by (simp add: CopyResourceAction_run_def OpenToSideAction_run_def)

section \<open>Classification\<close>

text \<open>
  Claim C1. A payload with a \<^verbatim>\<open>name\<close> member is a symbol descriptor and is classified as
  the symbol variant wrapping that descriptor; a payload with a \<^verbatim>\<open>uri\<close> member (with
  or without a range) is classified as the resource variant with that URI and range.
  The classification is a function of the payload alone: the widget's \<open>data\<close> is
  \<open>classify r\<close> whatever the services and the world are.
\<close>

theorem classify_by_shape:
  "(has_name_field r \<longrightarrow> (\<exists>s. r = RefSymbol s \<and> classify r = SymbolData s)) \<and>
   (has_uri_field r \<longrightarrow>
      (\<exists>l. r = RefLocation l \<and> classify r = ResourceData (loc_uri l) (loc_range l))) \<and>
   data (new_InlineAnchorWidget sv wd r) = classify r"
  by (cases r) (simp_all add: construct_defs split: option.split)

theorem classify_by_shape_witness:
  "has_name_field (RefSymbol symbol0) \<and>
   classify (RefSymbol symbol0) = SymbolData symbol0 \<and>
   data (new_InlineAnchorWidget services0 world_unloaded (RefSymbol symbol0)) = SymbolData symbol0 \<and>
   has_uri_field (RefLocation \<lparr>loc_uri = file_uri ''/a/b.txt'', loc_range = Some range_3_5\<rparr>) \<and>
   data (new_InlineAnchorWidget services0 world_unloaded
          (RefLocation \<lparr>loc_uri = file_uri ''/a/b.txt'', loc_range = Some range_3_5\<rparr>)) =
     ResourceData (file_uri ''/a/b.txt'') (Some range_3_5)"
  using classify_by_shape [of "RefSymbol symbol0" services0 world_unloaded]
    classify_by_shape [of "RefLocation \<lparr>loc_uri = file_uri ''/a/b.txt'', loc_range = Some range_3_5\<rparr>"
      services0 world_unloaded]
  by simp

text \<open>
  On a value of the declared type the construction returns the widget; a bare URI,
  which has neither member, takes the last arm of the classification and becomes a
  resource reference without range.
\<close>

lemma construct_declared: "construct sv wd (Declared r) = Inr (new_InlineAnchorWidget sv wd r)"
  by (cases r) (simp_all add: construct_def)

lemma bare_uri_is_resource:
  "data (new_InlineAnchorWidget sv wd (RefUri u)) = ResourceData u None \<and>
   iconText (new_InlineAnchorWidget sv wd (RefUri u)) = getUriBasenameLabel sv u \<and>
   data_href (new_InlineAnchorWidget sv wd (RefUri u)) = u\<lparr>fragment := []\<rparr>"
  by (simp add: construct_defs)



section \<open>Capability flags of a symbol anchor\<close>

text \<open>
  Claim C2. The has-reference-provider flag should hold what the reference-provider
  registry answers for the loaded document. Line 119 reads the definition-provider
  registry instead. With the document loaded, no definition provider and a reference
  provider, the flag is false after construction and stays false after a
  reference-provider notification; with a definition provider and no reference
  provider it is true.
\<close>

theorem reference_flag_reads_definition_registry:
  "getModel (world_loaded False True) (loc_uri (location symbol0)) = Some 0 \<and>
   referenceProvider_has (world_loaded False True) 0 = True \<and>
   hasReferenceProvider
     (new_InlineAnchorWidget services0 (world_loaded False True) (RefSymbol symbol0)) = Some False \<and>
   hasReferenceProvider
     (step (new_InlineAnchorWidget services0 (world_loaded False False) (RefSymbol symbol0))
        (ReferenceProviderDidChange (world_loaded False True))) = Some False \<and>
   referenceProvider_has (world_loaded True False) 0 = False \<and>
   hasReferenceProvider
     (new_InlineAnchorWidget services0 (world_loaded True False) (RefSymbol symbol0)) = Some True"
  by (simp add: construct_defs world_loaded_def)

text \<open>
  Claim C10. A symbol anchor whose document is not loaded when the widget is built
  binds neither capability key and registers neither subscription, and no later event
  changes that: after any sequence of events, also notifications sent when the
  document has been loaded meanwhile, both keys are absent and both subscriptions are
  missing.
\<close>

theorem unloaded_symbol_never_binds:
  assumes "getModel wd (loc_uri (location s)) = None"
  shows "hasDefinitionProvider (lifetime (new_InlineAnchorWidget sv wd (RefSymbol s)) evs) = None \<and>
         hasReferenceProvider (lifetime (new_InlineAnchorWidget sv wd (RefSymbol s)) evs) = None \<and>
         definitionProvider_onDidChange
           (lifetime (new_InlineAnchorWidget sv wd (RefSymbol s)) evs) = None \<and>
         referenceProvider_onDidChange
           (lifetime (new_InlineAnchorWidget sv wd (RefSymbol s)) evs) = None"
proof -
  have "unbound (new_InlineAnchorWidget sv wd (RefSymbol s))"
    using assms by (simp add: unbound_def construct_defs)
  then have "unbound (lifetime (new_InlineAnchorWidget sv wd (RefSymbol s)) evs)"
    by (rule lifetime_unbound)
  then show ?thesis by (simp add: unbound_def)
qed

theorem unloaded_symbol_never_binds_witness:
  "getModel world_unloaded (loc_uri (location symbol0)) = None \<and>
   getModel (world_loaded True True) (loc_uri (location symbol0)) = Some 0 \<and>
   hasDefinitionProvider
     (lifetime (new_InlineAnchorWidget services0 world_unloaded (RefSymbol symbol0))
        [DefinitionProviderDidChange (world_loaded True True),
         ReferenceProviderDidChange (world_loaded True True), Click ''id-1'']) = None \<and>
   hasReferenceProvider
     (lifetime (new_InlineAnchorWidget services0 world_unloaded (RefSymbol symbol0))
        [DefinitionProviderDidChange (world_loaded True True),
         ReferenceProviderDidChange (world_loaded True True), Click ''id-1'']) = None"
proof -
  have h: "getModel world_unloaded (loc_uri (location symbol0)) = None"
    by (simp add: world_unloaded_def)
  have l: "getModel (world_loaded True True) (loc_uri (location symbol0)) = Some 0"
    by (simp add: world_loaded_def)
  show ?thesis
    using unloaded_symbol_never_binds [OF h, of services0
        "[DefinitionProviderDidChange (world_loaded True True),
          ReferenceProviderDidChange (world_loaded True True), Click ''id-1'']"] h l
    by simp
qed

section \<open>Display data\<close>

text \<open>
  Claim C3. For a resource reference with a range the label is the base name, a hash
  sign, the start line, a hyphen and the end line, and the fragment of the link target
  is the start line, a hyphen and the end line. Without a range the label is the base
  name alone and the fragment is empty.
\<close>

theorem resource_label_and_fragment:
  assumes "classify ref = ResourceData u rg"
  shows "(\<forall>r. rg = Some r \<longrightarrow>
            iconText (new_InlineAnchorWidget sv wd ref) =
              getUriBasenameLabel sv u @ ''#'' @ number_toString (startLineNumber r) @ ''-''
                @ number_toString (endLineNumber r) \<and>
            fragment (data_href (new_InlineAnchorWidget sv wd ref)) =
              number_toString (startLineNumber r) @ ''-'' @ number_toString (endLineNumber r)) \<and>
         (rg = None \<longrightarrow>
            iconText (new_InlineAnchorWidget sv wd ref) = getUriBasenameLabel sv u \<and>
            fragment (data_href (new_InlineAnchorWidget sv wd ref)) = [])"
  using assms by (simp add: construct_defs)

theorem resource_label_and_fragment_witness:
  "classify (RefLocation \<lparr>loc_uri = file_uri ''/a/b.txt'', loc_range = Some range_3_5\<rparr>) =
     ResourceData (file_uri ''/a/b.txt'') (Some range_3_5) \<and>
   iconText (new_InlineAnchorWidget services0 world_unloaded
     (RefLocation \<lparr>loc_uri = file_uri ''/a/b.txt'', loc_range = Some range_3_5\<rparr>)) = ''b.txt#3-5'' \<and>
   fragment (data_href (new_InlineAnchorWidget services0 world_unloaded
     (RefLocation \<lparr>loc_uri = file_uri ''/a/b.txt'', loc_range = Some range_3_5\<rparr>))) = ''3-5'' \<and>
   classify (RefUri (file_uri ''/a/b.txt'')) = ResourceData (file_uri ''/a/b.txt'') None \<and>
   iconText (new_InlineAnchorWidget services0 world_unloaded (RefUri (file_uri ''/a/b.txt''))) = ''b.txt'' \<and>
   fragment (data_href (new_InlineAnchorWidget services0 world_unloaded (RefUri (file_uri ''/a/b.txt'')))) = []"
proof -
  have h1: "classify (RefLocation \<lparr>loc_uri = file_uri ''/a/b.txt'', loc_range = Some range_3_5\<rparr>) =
     ResourceData (file_uri ''/a/b.txt'') (Some range_3_5)" by simp
  have h2: "classify (RefUri (file_uri ''/a/b.txt'')) = ResourceData (file_uri ''/a/b.txt'') None"
    by simp
  show ?thesis
    using resource_label_and_fragment [OF h1, of services0 world_unloaded]
      resource_label_and_fragment [OF h2, of services0 world_unloaded]
    by (simp add: basename_label_b_txt range_3_5_lines number_toString_3 number_toString_5)
qed

text \<open>
  Claim C4, as stated, fails: for a symbol whose location carries the range of lines 3
  to 5, the link target is not the location's URI; its fragment is \<open>3-5\<close> while the
  location's URI has none.
\<close>

theorem symbol_link_target_counterexample:
  "data_href (new_InlineAnchorWidget services0 world_unloaded (RefSymbol symbol0)) \<noteq>
     loc_uri (location symbol0) \<and>
   fragment (loc_uri (location symbol0)) = [] \<and>
   fragment (data_href (new_InlineAnchorWidget services0 world_unloaded (RefSymbol symbol0))) = ''3-5''"
  by (simp add: construct_defs symbol0_def world_unloaded_def file_uri_def range_3_5_def
        number_toString_3 number_toString_5)

text \<open>
  Claim C4, amended. For a symbol reference the link target is the URI of the symbol's
  location with its fragment replaced: by the start line, a hyphen and the end line
  when the location carries a range, by the empty string when it does not.
\<close>

theorem symbol_link_target:
  "data_href (new_InlineAnchorWidget sv wd (RefSymbol s)) =
     (loc_uri (location s))
       \<lparr>fragment :=
          (case loc_range (location s) of
             Some r \<Rightarrow> number_toString (startLineNumber r) @ ''-'' @ number_toString (endLineNumber r)
           | None \<Rightarrow> [])\<rparr>"
  by (simp add: construct_defs split: option.split)

text \<open>
  The icon classes of a resource anchor come from a service that reads the loaded
  documents: with the sample services, the same file has other display data once its
  document is loaded.
\<close>

lemma display_data_reads_icon_service:
  "display_data (new_InlineAnchorWidget services0 world_unloaded (RefUri (file_uri ''/a/b.txt''))) \<noteq>
   display_data
     (new_InlineAnchorWidget services0 (world_loaded False False) (RefUri (file_uri ''/a/b.txt'')))"
  by (simp add: display_data_def construct_defs services0_def world_unloaded_def
        world_loaded_def file_uri_def endsWith_slash_def)

text \<open>
  Claim C8. The display data (label, set of icon classes, link target) of a widget is
  determined by the payload and by what the label service and the icon services answer.
  Two widgets built from the same payload, for which those services answer alike (the
  icon service in the state of the world at either construction), have the same display
  data, whatever else differs: the registries and the disposal of documents, the other
  services, the declared defaults, and the events either widget has received since.
\<close>

theorem display_data_deterministic:
  assumes "getUriBasenameLabel sv1 = getUriBasenameLabel sv2"
    and "getIconClasses sv1 wd1 = getIconClasses sv2 wd2"
    and "toIcon sv1 = toIcon sv2"
  shows "display_data (new_InlineAnchorWidget sv1 wd1 ref) =
           display_data (new_InlineAnchorWidget sv2 wd2 ref) \<and>
         display_data (lifetime (new_InlineAnchorWidget sv1 wd1 ref) evs1) =
           display_data (lifetime (new_InlineAnchorWidget sv2 wd2 ref) evs2)"
proof -
  have "display_data (new_InlineAnchorWidget sv1 wd1 ref) =
          display_data (new_InlineAnchorWidget sv2 wd2 ref)"
    using assms
    by (cases ref) (simp_all add: display_data_def construct_defs split: option.split)
  then show ?thesis by (simp add: lifetime_display_data)
qed

theorem display_data_deterministic_witness:
  "getUriBasenameLabel services0 = getUriBasenameLabel services1 \<and>
   getIconClasses services0 (world_loaded True False) =
     getIconClasses services1 (world_loaded False True) \<and>
   toIcon services0 = toIcon services1 \<and>
   display_data
       (lifetime
          (new_InlineAnchorWidget services0 (world_loaded True False)
             (RefLocation \<lparr>loc_uri = file_uri ''/a/b.txt'', loc_range = Some range_3_5\<rparr>))
          [StatSettled (Rejected ''ENOENT'')]) =
     display_data
       (lifetime
          (new_InlineAnchorWidget services1 (world_loaded False True)
             (RefLocation \<lparr>loc_uri = file_uri ''/a/b.txt'', loc_range = Some range_3_5\<rparr>))
          [Click ''id-1'', StatSettled (Fulfilled \<lparr>isDirectory = False\<rparr>), Dispose])"
proof -
  have h1: "getUriBasenameLabel services0 = getUriBasenameLabel services1"
    by (simp add: services1_def)
  have h2: "getIconClasses services0 (world_loaded True False) =
              getIconClasses services1 (world_loaded False True)"
    by (simp add: services1_def services0_def world_loaded_def fun_eq_iff split: option.split)
  have h3: "toIcon services0 = toIcon services1"
    by (simp add: services1_def)
  show ?thesis
    using display_data_deterministic [OF h1 h2 h3,
        of "RefLocation \<lparr>loc_uri = file_uri ''/a/b.txt'', loc_range = Some range_3_5\<rparr>"
        "[StatSettled (Rejected ''ENOENT'')]"
        "[Click ''id-1'', StatSettled (Fulfilled \<lparr>isDirectory = False\<rparr>), Dispose]"] h1 h2 h3
    by simp
qed

section \<open>Resource anchors: the stat check and the keybinding actions\<close>

text \<open>
  Claim C7. For a resource reference a rejected stat is swallowed: the chain of
  promises ends fulfilled (nothing escapes) and leaves the widget as it was, so the
  folder flag keeps the default it got when it was bound. After any sequence of events
  in which no stat is fulfilled, the flag still holds that default.
\<close>

theorem stat_failure_swallowed:
  assumes "classify ref = ResourceData u rg"
  shows "stat_chain (new_InlineAnchorWidget sv wd ref) (Rejected e) =
           (new_InlineAnchorWidget sv wd ref, Fulfilled ()) \<and>
         explorerResourceIsFolder (new_InlineAnchorWidget sv wd ref) =
           Some (explorerFolderDefault sv) \<and>
         step (new_InlineAnchorWidget sv wd ref) (StatSettled (Rejected e)) =
           (new_InlineAnchorWidget sv wd ref)\<lparr>statPending := False\<rparr> \<and>
         ((\<forall>st. StatSettled (Fulfilled st) \<notin> set evs) \<longrightarrow>
            explorerResourceIsFolder (lifetime (new_InlineAnchorWidget sv wd ref) evs) =
              Some (explorerFolderDefault sv))"
proof -
  have d: "explorerResourceIsFolder (new_InlineAnchorWidget sv wd ref) =
             Some (explorerFolderDefault sv)"
    using assms by (simp add: construct_defs)
  have p: "statPending (new_InlineAnchorWidget sv wd ref)"
    using assms by (simp add: construct_defs)
  show ?thesis
    using d p by (simp add: lifetime_explorerResourceIsFolder)
qed

theorem stat_failure_swallowed_witness:
  "classify (RefUri (file_uri ''/a/dir/'')) = ResourceData (file_uri ''/a/dir/'') None \<and>
   stat_chain (new_InlineAnchorWidget services0 world_unloaded (RefUri (file_uri ''/a/dir/'')))
       (Rejected ''ENOENT'') =
     (new_InlineAnchorWidget services0 world_unloaded (RefUri (file_uri ''/a/dir/'')), Fulfilled ()) \<and>
   explorerResourceIsFolder
     (lifetime (new_InlineAnchorWidget services0 world_unloaded (RefUri (file_uri ''/a/dir/'')))
        [Click ''id-1'', StatSettled (Rejected ''ENOENT''), Dispose]) = Some False"
proof -
  have h: "classify (RefUri (file_uri ''/a/dir/'')) = ResourceData (file_uri ''/a/dir/'') None"
    by simp
  have n: "\<forall>st. StatSettled (Fulfilled st) \<notin>
             set [Click ''id-1'', StatSettled (Rejected ''ENOENT''), Dispose]"
    by simp
  have f: "explorerFolderDefault services0 = False"
    by (simp add: services0_def)
  show ?thesis
    using stat_failure_swallowed [OF h, of services0 world_unloaded "''ENOENT''"
        "[Click ''id-1'', StatSettled (Rejected ''ENOENT''), Dispose]"] n f
    by simp
qed

text \<open>
  Claim C5. Copy and Open to the Side read nothing but the anchor the tracker holds.
  When it holds none, or holds a symbol anchor, neither action calls the clipboard or
  the command service.
\<close>

theorem keybinding_actions_noop:
  assumes "anchor = None \<or> (\<exists>a. anchor = Some a \<and> is_symbol (data a))"
  shows "CopyResourceAction_run anchor = [] \<and> OpenToSideAction_run cmd anchor = []"
  using assms
  by (auto simp: CopyResourceAction_run_def OpenToSideAction_run_def
        split: option.splits content_ref_data.splits)

theorem keybinding_actions_noop_witness:
  "CopyResourceAction_run None = [] \<and>
   OpenToSideAction_run ''explorer.openToSide'' None = [] \<and>
   is_symbol (data (new_InlineAnchorWidget services0 world_unloaded (RefSymbol symbol0))) \<and>
   CopyResourceAction_run
     (Some (new_InlineAnchorWidget services0 world_unloaded (RefSymbol symbol0))) = [] \<and>
   OpenToSideAction_run ''explorer.openToSide''
     (Some (new_InlineAnchorWidget services0 world_unloaded (RefSymbol symbol0))) = []"
proof -
  let ?w = "new_InlineAnchorWidget services0 world_unloaded (RefSymbol symbol0)"
  have s: "is_symbol (data ?w)"
    by (simp add: construct_defs split: option.split)
  have h1: "(None :: widget option) = None \<or> (\<exists>a. None = Some a \<and> is_symbol (data a))"
    by simp
  have h2: "Some ?w = None \<or> (\<exists>a. Some ?w = Some a \<and> is_symbol (data a))"
    using s by simp
  show ?thesis
    using keybinding_actions_noop [OF h1, of "''explorer.openToSide''"]
      keybinding_actions_noop [OF h2, of "''explorer.openToSide''"] s
    by simp
qed

text \<open>
  Claim C9. The chat-resource key is written in the resource branch only. For a symbol
  anchor it is unset after construction and after any sequence of events, so the
  precondition of Copy and Open to the Side is false in its scope whenever the ambient
  context does not define the key. For a resource anchor the key holds the reference's
  URI throughout and the precondition is true.
\<close>

theorem chat_resource_key_only_in_resource_branch:
  "(\<forall>s. classify ref = SymbolData s \<longrightarrow>
      chatAnchorResource (lifetime (new_InlineAnchorWidget sv wd ref) evs) = None \<and>
      \<not> chatResource_precondition None (lifetime (new_InlineAnchorWidget sv wd ref) evs)) \<and>
   (\<forall>u rg. classify ref = ResourceData u rg \<longrightarrow>
      chatAnchorResource (lifetime (new_InlineAnchorWidget sv wd ref) evs) = Some u \<and>
      chatResource_precondition ambient (lifetime (new_InlineAnchorWidget sv wd ref) evs))"
  by (cases ref)
     (simp_all add: lifetime_chatAnchorResource chatResource_precondition_def construct_defs
        split: option.split)

theorem chat_resource_key_only_in_resource_branch_witness:
  "classify (RefSymbol symbol0) = SymbolData symbol0 \<and>
   chatAnchorResource
     (lifetime (new_InlineAnchorWidget services0 (world_loaded True True) (RefSymbol symbol0))
        [Click ''id-1'', DefinitionProviderDidChange (world_loaded False False), Dispose]) = None \<and>
   \<not> chatResource_precondition None
     (lifetime (new_InlineAnchorWidget services0 (world_loaded True True) (RefSymbol symbol0))
        [Click ''id-1'', DefinitionProviderDidChange (world_loaded False False), Dispose]) \<and>
   classify (RefUri (file_uri ''/a/b.txt'')) = ResourceData (file_uri ''/a/b.txt'') None \<and>
   chatAnchorResource
     (lifetime (new_InlineAnchorWidget services0 world_unloaded (RefUri (file_uri ''/a/b.txt'')))
        [StatSettled (Fulfilled \<lparr>isDirectory = False\<rparr>)]) = Some (file_uri ''/a/b.txt'')"
  using chat_resource_key_only_in_resource_branch [of "RefSymbol symbol0" services0
      "world_loaded True True"
      "[Click ''id-1'', DefinitionProviderDidChange (world_loaded False False), Dispose]" None]
    chat_resource_key_only_in_resource_branch [of "RefUri (file_uri ''/a/b.txt'')" services0
      world_unloaded "[StatSettled (Fulfilled \<lparr>isDirectory = False\<rparr>)]" None]
  by simp

end
